theory Spec2Isabelle
  imports Complex_Main "HOL-Library.Multiset"
begin

section \<open>Tensors, errors and modules\<close>

text \<open>
  Tensors are rectangular nested lists, outermost axis first: a tensor of shape
  (S, B, C) is a list of S tokens, each a list of B rows of C numbers. What the encoders
  and the prompt constructor hold are finite numbers, reals. The decoder divides, and a
  division by zero raises nothing: it yields NaN or an infinity, which then flows on. So
  the decoder's tensors hold floats: a finite real, an infinity or NaN (rounding is not
  modelled, and zero has no sign).
\<close>

type_synonym vec = "real list"
type_synonym mat = "real list list"
type_synonym tensor3 = "real list list list"

datatype pyfloat = Fin real | PosInf | NegInf | NaN

type_synonym fvec = "pyfloat list"
type_synonym fmat = "pyfloat list list"
type_synonym ftensor3 = "pyfloat list list list"

text \<open>\<open>math.isfinite\<close>.\<close>

definition isfinite :: "pyfloat \<Rightarrow> bool" where
  "isfinite x = (case x of Fin _ \<Rightarrow> True | _ \<Rightarrow> False)"

text \<open>A tensor of finite numbers read as a tensor of floats.\<close>

definition to_float2 :: "mat \<Rightarrow> fmat" where
  "to_float2 t = map (map Fin) t"

definition to_float3 :: "tensor3 \<Rightarrow> ftensor3" where
  "to_float3 t = map (map (map Fin)) t"

datatype error =
    TypeError
  | AttributeError
  | AssertionError
  | ValueError
  | IndexError
  | RuntimeError
  | NotImplementedError
  | SystemExit int

text \<open>An attribute holding either one module or an indexable \<open>ModuleList\<close>.\<close>

datatype 'a modules = Module 'a | ModuleList "'a list"

text \<open>\<open>ms[i]\<close> on a \<open>ModuleList\<close>, for the indices \<open>range\<close> produces (never negative).\<close>

definition module_at :: "'a list \<Rightarrow> nat \<Rightarrow> error + 'a" where
  "module_at ms i = (if i < length ms then Inr (ms ! i) else Inl IndexError)"

text \<open>
  The text decoder block: called as
  \<open>vl_transformer(sampled_features, None, language_feat, pe, text_mask, l_pos)\<close>,
  it returns a tuple whose component 0 is the stack of decoder layers.
\<close>

type_synonym transformer =
  "ftensor3 \<Rightarrow> ftensor3 \<Rightarrow> ftensor3 \<Rightarrow> bool list list \<Rightarrow> ftensor3 \<Rightarrow> ftensor3 list"

text \<open>A registered parameter: its dotted name and its \<open>requires_grad\<close> flag.\<close>

record param =
  name :: string
  requires_grad :: bool

text \<open>
  The model object. The attributes built by the parent class \<open>DynamicMDETR\<close> (backbones,
  projections, fusion encoder, sampler, decoder block, box head, learned constants) are
  fields whose values are left open; \<open>visual_prompts\<close> and \<open>pseudo_embedding\<close> are
  absent (\<open>None\<close>) until \<open>_get_visual_prompts\<close> stores them.

  \<open>forward\<close> calls \<open>visumodel\<close> on a nested image batch and takes its first result
  apart as a (mask, tokens) pair; \<open>_get_visual_prompts\<close> calls it on one bare image
  tensor and pools its first result as a feature map of shape (channels, h, w). The two
  uses are two fields, \<open>visumodel\<close> and \<open>template_visumodel\<close>, since the class that
  defines the backbone is not among the sources.
\<close>

record ('img, 'txt) DynamicFSMDETR =
  pseudo_num_classes :: int
  hidden_dim :: nat
  num_visu_token :: nat
  stages :: nat
  different_transformer :: bool
  visual_prompts :: "mat option"
  pseudo_embedding :: "mat option"
  visumodel :: "'img list \<Rightarrow> (bool list list \<times> tensor3) \<times> tensor3"
  visu_proj :: "tensor3 \<Rightarrow> tensor3"
  textmodel :: "'txt \<Rightarrow> tensor3 \<times> bool list list option"
  text_proj :: "tensor3 \<Rightarrow> tensor3"
  vl_pos_embed :: mat
  vl_encoder :: "(tensor3 \<Rightarrow> mat \<Rightarrow> tensor3 \<Rightarrow> tensor3) option"
  init_sampling_feature :: mat
  init_reference_point :: mat
  feautures_sampling ::
    "fmat \<Rightarrow> fmat \<Rightarrow> ftensor3 \<Rightarrow> ftensor3 \<Rightarrow> nat \<Rightarrow> ftensor3 \<times> ftensor3"
  vl_transformer :: "transformer modules"
  bbox_embed :: "fmat \<Rightarrow> fmat"
  update_sampling_queries :: "(fmat \<Rightarrow> fmat) list"
  template_visumodel :: "'img \<Rightarrow> tensor3"
  named_parameters :: "param list"

section \<open>Fusion: concatenation and split\<close>

text \<open>\<open>t.unsqueeze(1).repeat(1, bs, 1)\<close> on a matrix: every row becomes a token of bs copies.\<close>

definition unsqueeze1_repeat :: "mat \<Rightarrow> nat \<Rightarrow> tensor3" where
  "unsqueeze1_repeat t bs = map (\<lambda>row. replicate bs row) t"

text \<open>\<open>torch.zeros(r, c)\<close>.\<close>

definition zeros :: "nat \<Rightarrow> nat \<Rightarrow> mat" where
  "zeros r c = replicate r (replicate c 0)"

text \<open>A boolean mask promoted to the float tensor it becomes inside \<open>torch.cat\<close>.\<close>

definition mask_float :: "bool list list \<Rightarrow> mat" where
  "mask_float m = map (map (\<lambda>b. if b then 1 else 0)) m"

text \<open>
  \<open>torch.cat([a, b, c], dim=1)\<close> on matrices: the row counts must agree, the rows are
  joined.
\<close>

definition cat_dim1 :: "mat \<Rightarrow> mat \<Rightarrow> mat \<Rightarrow> error + mat" where
  "cat_dim1 a b c =
     (if length a = length b \<and> length b = length c
      then Inr (map (\<lambda>i. a ! i @ b ! i @ c ! i) [0..<length a])
      else Inl RuntimeError)"

record fused =
  visu_feat :: tensor3
  language_feat :: tensor3
  v_pos :: tensor3
  l_pos :: tensor3

text \<open>Lines 93 to 96 of \<open>forward\<close>: the concatenated sequence, its mask and positions.\<close>

definition vl_concat ::
  "mat \<Rightarrow> nat \<Rightarrow> tensor3 \<Rightarrow> tensor3 \<Rightarrow> tensor3" where
  "vl_concat prompts bs visu_src text_src = unsqueeze1_repeat prompts bs @ visu_src @ text_src"

definition vl_mask_cat ::
  "mat \<Rightarrow> nat \<Rightarrow> bool list list \<Rightarrow> bool list list \<Rightarrow> error + mat" where
  "vl_mask_cat prompts bs visu_mask text_mask =
     cat_dim1 (zeros (length (unsqueeze1_repeat prompts bs)) bs)
              (mask_float visu_mask) (mask_float text_mask)"

text \<open>Lines 100 to 110 of \<open>forward\<close>: the encoder when there is one, then the split.\<close>

definition vl_split ::
  "('img, 'txt) DynamicFSMDETR \<Rightarrow> mat \<Rightarrow> tensor3 \<Rightarrow> tensor3 \<Rightarrow> fused" where
  "vl_split m prompts vl_feat vl_pos =
     (let num_prompts = length prompts in
      \<lparr> visu_feat = take (num_visu_token m) vl_feat,
        language_feat = drop (num_prompts + num_visu_token m) vl_feat,
        v_pos = take (num_visu_token m) vl_pos,
        l_pos = drop (num_visu_token m) vl_pos \<rparr>)"

definition fuse ::
  "('img, 'txt) DynamicFSMDETR \<Rightarrow> mat \<Rightarrow> nat \<Rightarrow> bool list list \<Rightarrow> tensor3 \<Rightarrow>
   bool list list \<Rightarrow> tensor3 \<Rightarrow> error + fused" where
  "fuse m prompts bs visu_mask visu_src text_mask text_src =
     (let vl_src = vl_concat prompts bs visu_src text_src in
      case vl_mask_cat prompts bs visu_mask text_mask of
        Inl e \<Rightarrow> Inl e
      | Inr vl_mask \<Rightarrow>
          (let vl_pos = unsqueeze1_repeat (vl_pos_embed m) bs;
               vl_feat = (case vl_encoder m of
                            Some enc \<Rightarrow> enc vl_src vl_mask vl_pos
                          | None \<Rightarrow> vl_src)
           in Inr (vl_split m prompts vl_feat vl_pos)))"

section \<open>The iterative sampling decoder\<close>

definition sigmoid :: "real \<Rightarrow> real" where
  "sigmoid x = 1 / (1 + exp (- x))"

text \<open>
  Float arithmetic, as far as the decoder uses it: NaN is absorbing, the infinities
  follow the sign rules, and the undefined forms (infinity minus infinity, zero times
  infinity, zero over zero, infinity over infinity) are NaN.
\<close>

fun fadd :: "pyfloat \<Rightarrow> pyfloat \<Rightarrow> pyfloat" where
  "fadd (Fin a) (Fin b) = Fin (a + b)"
| "fadd NaN y = NaN"
| "fadd x NaN = NaN"
| "fadd PosInf NegInf = NaN"
| "fadd NegInf PosInf = NaN"
| "fadd PosInf y = PosInf"
| "fadd x PosInf = PosInf"
| "fadd NegInf y = NegInf"
| "fadd x NegInf = NegInf"

fun fmul :: "pyfloat \<Rightarrow> pyfloat \<Rightarrow> pyfloat" where
  "fmul (Fin a) (Fin b) = Fin (a * b)"
| "fmul NaN y = NaN"
| "fmul x NaN = NaN"
| "fmul (Fin a) PosInf = (if a = 0 then NaN else if 0 < a then PosInf else NegInf)"
| "fmul (Fin a) NegInf = (if a = 0 then NaN else if 0 < a then NegInf else PosInf)"
| "fmul PosInf (Fin b) = (if b = 0 then NaN else if 0 < b then PosInf else NegInf)"
| "fmul NegInf (Fin b) = (if b = 0 then NaN else if 0 < b then NegInf else PosInf)"
| "fmul PosInf PosInf = PosInf"
| "fmul PosInf NegInf = NegInf"
| "fmul NegInf PosInf = NegInf"
| "fmul NegInf NegInf = PosInf"

fun fdiv :: "pyfloat \<Rightarrow> pyfloat \<Rightarrow> pyfloat" where
  "fdiv (Fin a) (Fin b) =
     (if b \<noteq> 0 then Fin (a / b)
      else if a = 0 then NaN else if 0 < a then PosInf else NegInf)"
| "fdiv NaN y = NaN"
| "fdiv x NaN = NaN"
| "fdiv (Fin a) PosInf = Fin 0"
| "fdiv (Fin a) NegInf = Fin 0"
| "fdiv PosInf (Fin b) = (if 0 \<le> b then PosInf else NegInf)"
| "fdiv NegInf (Fin b) = (if 0 \<le> b then NegInf else PosInf)"
| "fdiv PosInf y = NaN"
| "fdiv NegInf y = NaN"

text \<open>\<open>x.sigmoid()\<close> on a float: the limits at the infinities, NaN for NaN.\<close>

fun fsigmoid :: "pyfloat \<Rightarrow> pyfloat" where
  "fsigmoid (Fin x) = Fin (sigmoid x)"
| "fsigmoid PosInf = Fin 1"
| "fsigmoid NegInf = Fin 0"
| "fsigmoid NaN = NaN"

text \<open>The sum of a list of floats.\<close>

definition fsum :: "pyfloat list \<Rightarrow> pyfloat" where
  "fsum xs = foldr fadd xs (Fin 0)"

text \<open>\<open>t.permute(1, 0, 2)\<close>: entry (b, s, c) of the result is entry (s, b, c) of t.\<close>

definition permute102 :: "'a list list list \<Rightarrow> 'a list list list" where
  "permute102 t =
     (case t of [] \<Rightarrow> []
      | tok # _ \<Rightarrow> map (\<lambda>b. map (\<lambda>tk. tk ! b) t) [0..<length tok])"

text \<open>\<open>t.permute(1, 2, 0)\<close>: entry (b, c, s) of the result is entry (s, b, c) of t.\<close>

definition permute120 :: "tensor3 \<Rightarrow> tensor3" where
  "permute120 t =
     (case t of [] \<Rightarrow> []
      | tok # _ \<Rightarrow>
          map (\<lambda>b. map (\<lambda>c. map (\<lambda>tk. tk ! b ! c) t) [0..<length (hd tok)])
              [0..<length tok])"

text \<open>\<open>w.repeat(bs, 1)\<close> on a matrix: bs copies of its rows, one block after the other.\<close>

definition repeat_rows :: "mat \<Rightarrow> nat \<Rightarrow> mat" where
  "repeat_rows w bs = concat (replicate bs w)"

text \<open>Line 131: \<open>1 - text_mask * 1.0\<close>, where a true mask entry marks padding.\<close>

definition text_select :: "bool list list \<Rightarrow> mat" where
  "text_select text_mask = map (map (\<lambda>b. 1 - (if b then 1 else 0) * 1)) text_mask"


text \<open>\<open>x.sum(dim=0)\<close> of one item's (L, C) block: the column sums.\<close>

definition sum_dim0 :: "fmat \<Rightarrow> fvec" where
  "sum_dim0 rows =
     (case rows of [] \<Rightarrow> []
      | r # _ \<Rightarrow> map (\<lambda>j. fsum (map (\<lambda>row. row ! j) rows)) [0..<length r])"

text \<open>
  One batch item of line 135: the tokens, each multiplied by its selector entry, are
  summed and divided by the item's count. A zero count divides by zero: nothing is
  raised, and the entries of the row are NaN or infinities.
\<close>

definition pool_item :: "vec \<Rightarrow> fmat \<Rightarrow> fvec" where
  "pool_item sel x =
     (let num = sum_list sel;
          summed = sum_dim0 (map (\<lambda>l. map (\<lambda>v. fmul (Fin (sel ! l)) v) (x ! l)) [0..<length x])
      in map (\<lambda>v. fdiv v (Fin num)) summed)"

text \<open>
  Lines 131 to 135 on the whole batch, one row per item. The product of the (bs, L, 1)
  selector with the (B, L, C) decode output needs equal batch and text lengths; a
  mismatch is the tensor library's RuntimeError (broadcasting of a size-1 axis is not
  modelled, and the text axis is not empty).
\<close>

definition masked_pooling :: "bool list list \<Rightarrow> ftensor3 \<Rightarrow> error + fmat" where
  "masked_pooling text_mask vg0 =
     (let sel = text_select text_mask;
          x = permute102 vg0
      in if length sel = length x \<and> (\<forall>b < length sel. length (sel ! b) = length (x ! b))
         then Inr (map (\<lambda>b. pool_item (sel ! b) (x ! b)) [0..<length sel])
         else Inl RuntimeError)"

text \<open>\<open>torch.cat((a, b), dim=1)\<close> on matrices.\<close>

definition cat2_dim1 :: "fmat \<Rightarrow> fmat \<Rightarrow> error + fmat" where
  "cat2_dim1 a b =
     (if length a = length b then Inr (map (\<lambda>i. a ! i @ b ! i) [0..<length a])
      else Inl RuntimeError)"

text \<open>Lines 123 to 126: which decoder block stage i calls.\<close>

definition select_transformer ::
  "('img, 'txt) DynamicFSMDETR \<Rightarrow> nat \<Rightarrow> error + transformer" where
  "select_transformer m i =
     (if different_transformer m
      then (case vl_transformer m of
              ModuleList ts \<Rightarrow> module_at ts i
            | Module _ \<Rightarrow> Inl TypeError)
      else (case vl_transformer m of
              Module t \<Rightarrow> Inr t
            | ModuleList _ \<Rightarrow> Inl NotImplementedError))"

record dstate =
  sampling_query :: fmat
  reference_point :: fmat
  pred_box :: "fmat option"
  cur_language_feat :: ftensor3

text \<open>Line 137: the box head followed by the sigmoid.\<close>

definition box_head :: "('img, 'txt) DynamicFSMDETR \<Rightarrow> fmat \<Rightarrow> fmat" where
  "box_head m vg_hs = map (map fsigmoid) (bbox_embed m vg_hs)"

text \<open>One pass of the loop body, lines 119 to 141, for stage index i.\<close>

definition stage ::
  "('img, 'txt) DynamicFSMDETR \<Rightarrow> bool list list \<Rightarrow> fused \<Rightarrow> nat \<Rightarrow> dstate \<Rightarrow>
   error + dstate" where
  "stage m text_mask f i s =
     (case feautures_sampling m (sampling_query s) (reference_point s)
             (to_float3 (permute120 (visu_feat f))) (to_float3 (permute120 (v_pos f))) i of
        (sampled_features, pe) \<Rightarrow>
     (case select_transformer m i of Inl e \<Rightarrow> Inl e
      | Inr tf \<Rightarrow>
     (case tf sampled_features (cur_language_feat s) pe text_mask (to_float3 (l_pos f)) of
        [] \<Rightarrow> Inl IndexError
      | vg0 # _ \<Rightarrow>
     (case masked_pooling text_mask vg0 of Inl e \<Rightarrow> Inl e
      | Inr vg_hs \<Rightarrow>
     (let box = box_head m vg_hs in
      case module_at (update_sampling_queries m) i of Inl e \<Rightarrow> Inl e
      | Inr upd \<Rightarrow>
     (case cat2_dim1 vg_hs (sampling_query s) of Inl e \<Rightarrow> Inl e
      | Inr c \<Rightarrow>
          Inr \<lparr> sampling_query = upd c,
                reference_point = map (take 2) box,
                pred_box = Some box,
                cur_language_feat = vg0 \<rparr>))))))"

text \<open>\<open>for i in range(0, self.stages)\<close>: n more stages from index i.\<close>

fun decode_loop ::
  "('img, 'txt) DynamicFSMDETR \<Rightarrow> bool list list \<Rightarrow> fused \<Rightarrow> nat \<Rightarrow> nat \<Rightarrow> dstate \<Rightarrow>
   error + dstate" where
  "decode_loop m text_mask f i 0 s = Inr s"
| "decode_loop m text_mask f i (Suc n) s =
     (case stage m text_mask f i s of Inl e \<Rightarrow> Inl e
      | Inr s' \<Rightarrow> decode_loop m text_mask f (Suc i) n s')"

text \<open>Lines 73 to 110: the encoders, the assertion on the text mask, the fusion.\<close>

definition encode ::
  "('img, 'txt) DynamicFSMDETR \<Rightarrow> 'img list \<Rightarrow> 'txt \<Rightarrow> error + (bool list list \<times> fused)" where
  "encode m img_data text_data =
     (let bs = length img_data in
      case visumodel m img_data of ((visu_mask, visu_src0), visu_pos) \<Rightarrow>
     (let visu_src = visu_proj m visu_src0 in
      case textmodel m text_data of
        (_, None) \<Rightarrow> Inl AssertionError
      | (text_src0, Some text_mask) \<Rightarrow>
     (let text_src = permute102 (text_proj m text_src0) in
      case visual_prompts m of None \<Rightarrow> Inl AttributeError
      | Some prompts \<Rightarrow>
     (case fuse m prompts bs visu_mask visu_src text_mask text_src of Inl e \<Rightarrow> Inl e
      | Inr f \<Rightarrow> Inr (text_mask, f)))))"

definition init_state :: "('img, 'txt) DynamicFSMDETR \<Rightarrow> nat \<Rightarrow> fused \<Rightarrow> dstate" where
  "init_state m bs f =
     \<lparr> sampling_query = to_float2 (repeat_rows (init_sampling_feature m) bs),
       reference_point = to_float2 (repeat_rows (init_reference_point m) bs),
       pred_box = None,
       cur_language_feat = to_float3 (language_feat f) \<rparr>"

text \<open>\<open>forward(self, img_data, text_data)\<close>; the result \<open>None\<close> is Python's \<open>None\<close>.\<close>

definition forward ::
  "('img, 'txt) DynamicFSMDETR \<Rightarrow> 'img list \<Rightarrow> 'txt \<Rightarrow> error + fmat option" where
  "forward m img_data text_data =
     (case encode m img_data text_data of Inl e \<Rightarrow> Inl e
      | Inr (text_mask, f) \<Rightarrow>
     (case decode_loop m text_mask f 0 (stages m) (init_state m (length img_data) f) of
        Inl e \<Rightarrow> Inl e
      | Inr s \<Rightarrow> Inr (pred_box s)))"

text \<open>
  \<open>model(img_data, text_data, *extra)\<close>: the module call hands its positional arguments
  to \<open>forward\<close>, which declares two.
\<close>

definition call_model ::
  "('img, 'txt) DynamicFSMDETR \<Rightarrow> 'img list \<Rightarrow> 'txt \<Rightarrow> 'x list \<Rightarrow> error + fmat option" where
  "call_model m img_data text_data extra =
     (if extra = [] then forward m img_data text_data else Inl TypeError)"

section \<open>The few-shot adaptation policy\<close>

text \<open>Python's \<open>sub in s\<close> on strings.\<close>

fun in_str :: "string \<Rightarrow> string \<Rightarrow> bool" where
  "in_str sub [] = (sub = [])"
| "in_str sub (c # cs) = (take (length sub) (c # cs) = sub \<or> in_str sub cs)"

text \<open>The condition of line 24, under which a parameter is frozen.\<close>

definition freeze_cond :: "string \<Rightarrow> bool" where
  "freeze_cond nm =
     (\<not> in_str ''pseudo_embedding'' nm \<and> \<not> in_str ''init_sampling_feature'' nm
      \<and> \<not> in_str ''update_sampling_queries'' nm)"

definition freeze_model_parameters ::
  "('img, 'txt) DynamicFSMDETR \<Rightarrow> ('img, 'txt) DynamicFSMDETR" where
  "freeze_model_parameters m =
     m\<lparr> named_parameters :=
          map (\<lambda>p. if freeze_cond (name p) then p\<lparr> requires_grad := False \<rparr> else p)
              (named_parameters m) \<rparr>"

record args =
  args_pseudo_num_classes :: int
  args_hidden_dim :: nat
  args_vl_hidden_dim :: nat
  args_pseudo_embedding :: bool

text \<open>
  \<open>__init__\<close>, applied to the object the parent constructor has built: two attributes
  are copied from the arguments and, with \<open>args.pseudo_embedding\<close>, the widths are
  asserted equal and the policy is applied.
\<close>

definition init ::
  "args \<Rightarrow> ('img, 'txt) DynamicFSMDETR \<Rightarrow> error + ('img, 'txt) DynamicFSMDETR" where
  "init a base =
     (let m = base\<lparr> pseudo_num_classes := args_pseudo_num_classes a,
                    hidden_dim := args_hidden_dim a \<rparr>
      in if args_pseudo_embedding a
         then (if args_hidden_dim a = args_vl_hidden_dim a
               then Inr (freeze_model_parameters m)
               else Inl AssertionError)
         else Inr m)"

section \<open>The prompt constructor\<close>

text \<open>
  The two random sources are explicit states: a draw function and the number of draws
  made so far. \<open>py_random\<close> is the state of Python's \<open>random\<close> module, \<open>torch_rng\<close>
  that of the tensor library's default generator.
\<close>

type_synonym py_random = "(nat \<Rightarrow> nat) \<times> nat"
type_synonym torch_rng = "(nat \<Rightarrow> real) \<times> nat"

text \<open>\<open>random.randint(a, b)\<close>: an integer of [a, b], ValueError on an empty range.\<close>

definition randint :: "int \<Rightarrow> int \<Rightarrow> py_random \<Rightarrow> error + (int \<times> py_random)" where
  "randint a b g =
     (if b < a then Inl ValueError
      else Inr (a + int (fst g (snd g) mod nat (b - a + 1)), (fst g, Suc (snd g))))"

text \<open>
  \<open>PseudoEmbedding(pseudo_num_classes, embedding_dim)\<close>: a table of that shape filled
  by \<open>nn.init.normal_\<close> from the tensor library's generator. A negative row count is
  refused by \<open>torch.empty\<close>.
\<close>

definition PseudoEmbedding :: "int \<Rightarrow> nat \<Rightarrow> torch_rng \<Rightarrow> error + (mat \<times> torch_rng)" where
  "PseudoEmbedding n embedding_dim t =
     (if n < 0 then Inl RuntimeError
      else Inr (map (\<lambda>r. map (\<lambda>c. fst t (snd t + r * embedding_dim + c)) [0..<embedding_dim])
                    [0..<nat n],
                (fst t, snd t + nat n * embedding_dim)))"

text \<open>
  \<open>F.adaptive_avg_pool2d(x, (1, 1)).view(1, hidden_dim)\<close> on a (channels, h, w) map: the
  mean of every channel; an empty channel and a channel count other than \<open>hidden_dim\<close>
  are the tensor library's RuntimeError.
\<close>

definition avg_pool_view :: "tensor3 \<Rightarrow> nat \<Rightarrow> error + vec" where
  "avg_pool_view x hd_arg =
     (if (\<exists>ch \<in> set x. concat ch = []) \<or> length x \<noteq> hd_arg then Inl RuntimeError
      else Inr (map (\<lambda>ch. sum_list (concat ch) / real (length (concat ch))) x))"

text \<open>The sum of two one-row tensors, with the broadcasting of a width of one.\<close>

definition add_rows :: "vec \<Rightarrow> vec \<Rightarrow> error + vec" where
  "add_rows a b =
     (if length a = length b then Inr (map (\<lambda>i. a ! i + b ! i) [0..<length a])
      else if length a = 1 then Inr (map (\<lambda>y. a ! 0 + y) b)
      else if length b = 1 then Inr (map (\<lambda>x. x + b ! 0) a)
      else Inl RuntimeError)"

text \<open>\<open>torch.unique\<close>: the distinct values in ascending order.\<close>

definition unique :: "int list \<Rightarrow> int list" where
  "unique labels = sort (remdups labels)"

text \<open>\<open>(template_labels == label).nonzero(as_tuple=True)[0]\<close>.\<close>

definition label_indices :: "int list \<Rightarrow> int \<Rightarrow> nat list" where
  "label_indices template_labels label =
     filter (\<lambda>i. template_labels ! i = label) [0..<length template_labels]"

text \<open>\<open>templates[label_indices]\<close>: IndexError when an index is past the last template.\<close>

definition index_select :: "'a list \<Rightarrow> nat list \<Rightarrow> error + 'a list" where
  "index_select xs idx =
     (if \<forall>i \<in> set idx. i < length xs then Inr (map (\<lambda>i. xs ! i) idx) else Inl IndexError)"

text \<open>Lines 53 to 68: the inner loop over the templates of one label.\<close>

fun template_loop ::
  "('img, 'txt) DynamicFSMDETR \<Rightarrow> mat \<Rightarrow> nat \<Rightarrow> 'img list \<Rightarrow> py_random \<Rightarrow> mat \<Rightarrow>
   error + (mat \<times> py_random)" where
  "template_loop m embeddings hd_arg [] g acc = Inr (acc, g)"
| "template_loop m embeddings hd_arg (template # rest) g acc =
     (case avg_pool_view (template_visumodel m template) hd_arg of Inl e \<Rightarrow> Inl e
      | Inr template_feature \<Rightarrow>
     (case randint 0 (int (length embeddings) - 1) g of Inl e \<Rightarrow> Inl e
      | Inr (pseudo_embedding_idx, g') \<Rightarrow>
     (case add_rows template_feature (embeddings ! nat pseudo_embedding_idx) of Inl e \<Rightarrow> Inl e
      | Inr combined_feature \<Rightarrow>
          template_loop m embeddings hd_arg rest g' (acc @ [combined_feature]))))"

text \<open>Lines 47 to 68: the outer loop over the distinct labels.\<close>

fun label_loop ::
  "('img, 'txt) DynamicFSMDETR \<Rightarrow> mat \<Rightarrow> nat \<Rightarrow> 'img list \<Rightarrow> int list \<Rightarrow> int list \<Rightarrow>
   py_random \<Rightarrow> mat \<Rightarrow> error + (mat \<times> py_random)" where
  "label_loop m embeddings hd_arg templates template_labels [] g acc = Inr (acc, g)"
| "label_loop m embeddings hd_arg templates template_labels (label # rest) g acc =
     (case index_select templates (label_indices template_labels label) of Inl e \<Rightarrow> Inl e
      | Inr label_templates \<Rightarrow>
     (case template_loop m embeddings hd_arg label_templates g acc of Inl e \<Rightarrow> Inl e
      | Inr (acc', g') \<Rightarrow>
          label_loop m embeddings hd_arg templates template_labels rest g' acc'))"

text \<open>Assigning the module registers its parameter, trainable, under its dotted name.\<close>

definition register_parameter :: "string \<Rightarrow> param list \<Rightarrow> param list" where
  "register_parameter nm ps =
     (if nm \<in> set (map name ps)
      then map (\<lambda>p. if name p = nm then p\<lparr> requires_grad := True \<rparr> else p) ps
      else ps @ [\<lparr> name = nm, requires_grad = True \<rparr>])"

text \<open>
  \<open>_get_visual_prompts(self, templates, template_labels, hidden_dim)\<close>. The result is
  the object with the new table and the new bank, and the two generators after their
  draws; \<open>torch.cat\<close> refuses an empty list of prompts. After a raise the object is not
  used, so the error is returned alone.
\<close>

definition get_visual_prompts ::
  "('img, 'txt) DynamicFSMDETR \<Rightarrow> 'img list \<Rightarrow> int list \<Rightarrow> nat \<Rightarrow> py_random \<Rightarrow> torch_rng \<Rightarrow>
   error + (('img, 'txt) DynamicFSMDETR \<times> py_random \<times> torch_rng)" where
  "get_visual_prompts m templates template_labels hd_arg g t =
     (case PseudoEmbedding (pseudo_num_classes m) (hidden_dim m) t of Inl e \<Rightarrow> Inl e
      | Inr (embeddings, t') \<Rightarrow>
     (case label_loop m embeddings hd_arg templates template_labels
             (unique template_labels) g [] of Inl e \<Rightarrow> Inl e
      | Inr (prompts, g') \<Rightarrow>
          if prompts = [] then Inl RuntimeError
          else Inr (m\<lparr> pseudo_embedding := Some embeddings,
                       visual_prompts := Some prompts,
                       named_parameters :=
                         register_parameter ''pseudo_embedding.embeddings''
                           (named_parameters m) \<rparr>, g', t')))"

text \<open>Prompt construction followed by one forward pass.\<close>

definition construct_then_forward ::
  "('img, 'txt) DynamicFSMDETR \<Rightarrow> 'img list \<Rightarrow> int list \<Rightarrow> nat \<Rightarrow> 'img list \<Rightarrow> 'txt \<Rightarrow>
   py_random \<Rightarrow> torch_rng \<Rightarrow> error + fmat option" where
  "construct_then_forward m templates template_labels hd_arg img_data text_data g t =
     (case get_visual_prompts m templates template_labels hd_arg g t of Inl e \<Rightarrow> Inl e
      | Inr (m', _, _) \<Rightarrow> forward m' img_data text_data)"

section \<open>The training loop\<close>

text \<open>
  \<open>train_one_epoch\<close>. Lines 38 to 63 (the model call, the loss and its reduction) are
  the function \<open>loss_value\<close> of the current training state and the batch; lines 70 to
  79 (gradient step) are \<open>optimizer_step\<close>; line 76 logs the loss. \<open>sys.exit(1)\<close> is
  the error \<open>SystemExit 1\<close>.
\<close>

fun train_loop ::
  "('w \<Rightarrow> 'b \<Rightarrow> pyfloat) \<Rightarrow> ('w \<Rightarrow> 'b \<Rightarrow> 'w) \<Rightarrow> 'w \<Rightarrow> pyfloat list \<Rightarrow> 'b list \<Rightarrow>
   error + ('w \<times> pyfloat list)" where
  "train_loop loss_value optimizer_step w logged [] = Inr (w, logged)"
| "train_loop loss_value optimizer_step w logged (batch # rest) =
     (let v = loss_value w batch in
      if \<not> isfinite v then Inl (SystemExit 1)
      else train_loop loss_value optimizer_step (optimizer_step w batch) (logged @ [v]) rest)"

definition train_one_epoch ::
  "('w \<Rightarrow> 'b \<Rightarrow> pyfloat) \<Rightarrow> ('w \<Rightarrow> 'b \<Rightarrow> 'w) \<Rightarrow> 'w \<Rightarrow> 'b list \<Rightarrow> error + ('w \<times> pyfloat list)" where
  "train_one_epoch loss_value optimizer_step w data_loader =
     train_loop loss_value optimizer_step w [] data_loader"

section \<open>A small concrete model\<close>

text \<open>
  One image per batch, two visual tokens (10 and 20), two text tokens (0 and 40, the
  second one padding), hidden width 1, one prompt (7), no fusion encoder, two stages.
  The sampler hands the visual stream on, the decoder block adds the first sampled value
  to every text token, the box head puts the pooled value in the first coordinate, and
  the query update sums its input row. An image is a number; as a template its feature
  map is the single entry holding that number.
\<close>

definition demo_model :: "(nat, unit) DynamicFSMDETR" where
  "demo_model =
     \<lparr> pseudo_num_classes = 1, hidden_dim = 1, num_visu_token = 2, stages = 2,
       different_transformer = False,
       visual_prompts = Some [[7]], pseudo_embedding = None,
       visumodel = (\<lambda>imgs. (([[False, False]], [[[10]], [[20]]]), [])),
       visu_proj = (\<lambda>x. x),
       textmodel = (\<lambda>txt. ([[[0], [40]]], Some [[False, True]])),
       text_proj = (\<lambda>x. x),
       vl_pos_embed = [[1], [2], [3], [4]],
       vl_encoder = None,
       init_sampling_feature = [[0]],
       init_reference_point = [[0, 0]],
       feautures_sampling = (\<lambda>q r v p i. (v, p)),
       vl_transformer =
         Module (\<lambda>sf lang pe mask lpos. [map (map (map (\<lambda>x. fadd x (sf ! 0 ! 0 ! 0)))) lang]),
       bbox_embed = (\<lambda>x. map (\<lambda>row. [row ! 0, Fin 0, Fin 0, Fin 0]) x),
       update_sampling_queries = [\<lambda>x. map (\<lambda>row. [fsum row]) x,
                                  \<lambda>x. map (\<lambda>row. [fsum row]) x],
       template_visumodel = (\<lambda>img. [[[real img]]]),
       named_parameters =
         [\<lparr> name = ''visumodel.backbone.weight'', requires_grad = True \<rparr>,
          \<lparr> name = ''init_sampling_feature.weight'', requires_grad = True \<rparr>,
          \<lparr> name = ''update_sampling_queries.0.weight'', requires_grad = True \<rparr>,
          \<lparr> name = ''bbox_embed.layers.0.weight'', requires_grad = True \<rparr>] \<rparr>"

text \<open>The text mask, the fusion result and the first two decoder states of that model.\<close>

definition demo_text_mask :: "bool list list" where
  "demo_text_mask = [[False, True]]"

definition demo_fused :: fused where
  "demo_fused =
     \<lparr> visu_feat = [[[7]], [[10]]], language_feat = [[[0]], [[40]]],
       v_pos = [[[1]], [[2]]], l_pos = [[[3]], [[4]]] \<rparr>"

definition demo_state0 :: dstate where
  "demo_state0 =
     \<lparr> sampling_query = [[Fin 0]], reference_point = [[Fin 0, Fin 0]], pred_box = None,
       cur_language_feat = [[[Fin 0]], [[Fin 40]]] \<rparr>"

definition demo_state1 :: dstate where
  "demo_state1 =
     \<lparr> sampling_query = [[Fin 7]], reference_point = [[Fin (sigmoid 7), Fin (sigmoid 0)]],
       pred_box = Some [[Fin (sigmoid 7), Fin (sigmoid 0), Fin (sigmoid 0), Fin (sigmoid 0)]],
       cur_language_feat = [[[Fin 7]], [[Fin 47]]] \<rparr>"

text \<open>The same model with a text of padding only.\<close>

definition demo_model_all_padding :: "(nat, unit) DynamicFSMDETR" where
  "demo_model_all_padding =
     demo_model\<lparr> textmodel := (\<lambda>txt. ([[[0], [40]]], Some [[True, True]])) \<rparr>"

text \<open>The arguments that build it with the adaptation policy.\<close>

definition demo_args :: args where
  "demo_args =
     \<lparr> args_pseudo_num_classes = 1, args_hidden_dim = 1, args_vl_hidden_dim = 1,
       args_pseudo_embedding = True \<rparr>"

section \<open>Reading boxes and parameter flags\<close>

text \<open>A coordinate that is a number of [0, 1].\<close>

definition in_unit :: "pyfloat \<Rightarrow> bool" where
  "in_unit v = (case v of Fin r \<Rightarrow> 0 \<le> r \<and> r \<le> 1 | _ \<Rightarrow> False)"

text \<open>The names of the trainable parameters.\<close>

definition trainable_names :: "('img, 'txt) DynamicFSMDETR \<Rightarrow> string list" where
  "trainable_names m = map name (filter requires_grad (named_parameters m))"

section \<open>Properties of the masked pooling\<close>
















section \<open>Properties of the decoder and of the training loop\<close>

lemma stage_Inr:
  assumes "stage m text_mask f i s = Inr s'"
  shows "\<exists>sampled_features pe tf vg0 rest pooled upd c.
           feautures_sampling m (sampling_query s) (reference_point s)
             (to_float3 (permute120 (visu_feat f))) (to_float3 (permute120 (v_pos f))) i
               = (sampled_features, pe) \<and>
           select_transformer m i = Inr tf \<and>
           tf sampled_features (cur_language_feat s) pe text_mask (to_float3 (l_pos f)) = vg0 # rest \<and>
           masked_pooling text_mask vg0 = Inr pooled \<and>
           module_at (update_sampling_queries m) i = Inr upd \<and>
           cat2_dim1 pooled (sampling_query s) = Inr c \<and>
           s' = \<lparr> sampling_query = upd c, reference_point = map (take 2) (box_head m pooled),
                  pred_box = Some (box_head m pooled), cur_language_feat = vg0 \<rparr>"
  using assms unfolding stage_def
  by (auto split: prod.splits sum.splits list.splits simp: Let_def)

lemma decode_loop_snoc:
  "decode_loop m text_mask f i (Suc n) s = Inr s' \<Longrightarrow>
   \<exists>s_prev. decode_loop m text_mask f i n s = Inr s_prev \<and> stage m text_mask f (i + n) s_prev = Inr s'"
proof (induction n arbitrary: i s)
  case 0
  then show ?case by (auto split: sum.splits)
next
  case (Suc n)
  from Suc.prems obtain s1 where s1: "stage m text_mask f i s = Inr s1"
    and r: "decode_loop m text_mask f (Suc i) (Suc n) s1 = Inr s'"
    by (auto split: sum.splits)
  from Suc.IH[OF r] obtain sp where "decode_loop m text_mask f (Suc i) n s1 = Inr sp"
    and "stage m text_mask f (Suc i + n) sp = Inr s'" by blast
  then show ?case using s1 by auto
qed

lemma train_loop_Inl:
  "train_loop L U w logged bs = Inl e \<longleftrightarrow>
     e = SystemExit 1 \<and> (\<exists>k < length bs. \<not> isfinite (L (foldl U w (take k bs)) (bs ! k)))"
proof (induction bs arbitrary: w logged)
  case Nil
  then show ?case by simp
next
  case (Cons b bs)
  show ?case
  proof (cases "isfinite (L w b)")
    case False
    then show ?thesis by (auto simp: Let_def intro: exI[where x = 0])
  next
    case True
    have "(\<exists>k < length (b # bs). \<not> isfinite (L (foldl U w (take k (b # bs))) ((b # bs) ! k))) \<longleftrightarrow>
          (\<exists>k < length bs. \<not> isfinite (L (foldl U (U w b) (take k bs)) (bs ! k)))"
      (is "?l \<longleftrightarrow> ?r")
    proof
      assume ?l
      then obtain k where k: "k < length (b # bs)"
        "\<not> isfinite (L (foldl U w (take k (b # bs))) ((b # bs) ! k))" by blast
      with True obtain k' where "k = Suc k'" by (cases k) auto
      with k show ?r by auto
    next
      assume ?r
      then obtain k where "k < length bs" "\<not> isfinite (L (foldl U (U w b) (take k bs)) (bs ! k))" by blast
      then show ?l by (intro exI[where x = "Suc k"]) simp
    qed
    then show ?thesis using True Cons.IH[of "U w b" "logged @ [L w b]"] by (simp add: Let_def)
  qed
qed

lemma train_loop_Inr:
  "train_loop L U w logged bs = Inr (w', logged') \<Longrightarrow>
     w' = foldl U w bs \<and>
     logged' = logged @ map (\<lambda>k. L (foldl U w (take k bs)) (bs ! k)) [0..<length bs] \<and>
     (\<forall>k < length bs. isfinite (L (foldl U w (take k bs)) (bs ! k)))"
proof (induction bs arbitrary: w logged)
  case Nil
  then show ?case by simp
next
  case (Cons b bs)
  from Cons.prems have fin: "isfinite (L w b)"
    and r: "train_loop L U (U w b) (logged @ [L w b]) bs = Inr (w', logged')"
    by (auto simp: Let_def split: if_splits)
  note ih = Cons.IH[OF r]
  have m: "map (\<lambda>k. L (foldl U w (take k (b # bs))) ((b # bs) ! k)) [0..<length (b # bs)] =
        L w b # map (\<lambda>k. L (foldl U (U w b) (take k bs)) (bs ! k)) [0..<length bs]"
    by (simp add: upt_conv_Cons map_Suc_upt[symmetric] del: upt_Suc)
  have a: "\<forall>k < length (b # bs). isfinite (L (foldl U w (take k (b # bs))) ((b # bs) ! k))"
  proof (intro allI impI)
    fix k assume "k < length (b # bs)"
    then show "isfinite (L (foldl U w (take k (b # bs))) ((b # bs) ! k))"
      using fin ih by (cases k) auto
  qed
  show ?case using ih m a by simp
qed


lemmas demo_simps = encode_def demo_model_def fuse_def vl_mask_cat_def cat_dim1_def zeros_def
  unsqueeze1_repeat_def mask_float_def vl_split_def vl_concat_def permute102_def
  forward_def stage_def init_state_def repeat_rows_def permute120_def select_transformer_def
  masked_pooling_def text_select_def pool_item_def sum_dim0_def box_head_def module_at_def
  cat2_dim1_def numeral_2_eq_2 demo_text_mask_def demo_fused_def demo_state0_def demo_state1_def
  to_float2_def to_float3_def fsum_def demo_model_all_padding_def

lemma demo_encode:
  "encode demo_model [0] () = Inr (demo_text_mask, demo_fused)"
  by (simp add: demo_simps)

lemma demo_stage0:
  "stage demo_model demo_text_mask demo_fused 0 demo_state0 = Inr demo_state1"
  by (simp add: demo_simps)

lemma demo_forward:
  "forward demo_model [0] () = Inr (Some [[Fin (sigmoid 14), Fin (sigmoid 0), Fin (sigmoid 0), Fin (sigmoid 0)]])"
  by (simp add: demo_simps)

lemma take2_of_4: "length xs = 4 \<Longrightarrow> take 2 xs = [xs ! 0, xs ! 1]"
  by (cases xs; simp; cases "tl xs"; simp add: numeral_2_eq_2)

text \<open>
  C7. A stage that returns sets the reference point to the first two entries of every
  row of its predicted box, which for a four-entry row (center_x, center_y, width,
  height) are center_x and center_y, and sets the sampling query to the projection of
  index i of \<open>update_sampling_queries\<close> applied to the row-wise concatenation of the
  pooled vectors with the previous sampling query.
\<close>

theorem stage_state_update:
  assumes "stage m text_mask f i s = Inr s'"
  shows "\<exists>sampled_features pe tf vg0 rest pooled box.
           feautures_sampling m (sampling_query s) (reference_point s)
             (to_float3 (permute120 (visu_feat f))) (to_float3 (permute120 (v_pos f))) i
               = (sampled_features, pe) \<and>
           select_transformer m i = Inr tf \<and>
           tf sampled_features (cur_language_feat s) pe text_mask (to_float3 (l_pos f)) = vg0 # rest \<and>
           masked_pooling text_mask vg0 = Inr pooled \<and>
           box = box_head m pooled \<and> pred_box s' = Some box \<and>
           reference_point s' = map (take 2) box \<and>
           (\<forall>j < length box. length (box ! j) = 4 \<longrightarrow>
                reference_point s' ! j = [box ! j ! 0, box ! j ! 1]) \<and>
           i < length (update_sampling_queries m) \<and>
           length pooled = length (sampling_query s) \<and>
           sampling_query s' =
             (update_sampling_queries m ! i)
               (map (\<lambda>j. pooled ! j @ sampling_query s ! j) [0..<length pooled])"
proof -
  from stage_Inr[OF assms] obtain sampled_features pe tf vg0 rest pooled upd c where
    fs: "feautures_sampling m (sampling_query s) (reference_point s)
             (to_float3 (permute120 (visu_feat f))) (to_float3 (permute120 (v_pos f))) i
               = (sampled_features, pe)"
    and st: "select_transformer m i = Inr tf"
    and tf: "tf sampled_features (cur_language_feat s) pe text_mask (to_float3 (l_pos f)) = vg0 # rest"
    and mp: "masked_pooling text_mask vg0 = Inr pooled"
    and ma: "module_at (update_sampling_queries m) i = Inr upd"
    and ct: "cat2_dim1 pooled (sampling_query s) = Inr c"
    and s': "s' = \<lparr> sampling_query = upd c, reference_point = map (take 2) (box_head m pooled),
                  pred_box = Some (box_head m pooled), cur_language_feat = vg0 \<rparr>"
    by blast
  from ma have i: "i < length (update_sampling_queries m)" and upd: "upd = update_sampling_queries m ! i"
    by (auto simp: module_at_def split: if_splits)
  from ct have len: "length pooled = length (sampling_query s)"
    and c: "c = map (\<lambda>j. pooled ! j @ sampling_query s ! j) [0..<length pooled]"
    by (auto simp: cat2_dim1_def split: if_splits)
  have rp: "\<forall>j < length (box_head m pooled). length (box_head m pooled ! j) = 4 \<longrightarrow>
              reference_point s' ! j = [box_head m pooled ! j ! 0, box_head m pooled ! j ! 1]"
    using s' by (simp add: take2_of_4)
  show ?thesis
    using fs st tf mp i len rp s' upd c by auto
qed

theorem stage_state_update_witness:
  "stage demo_model demo_text_mask demo_fused 0 demo_state0 = Inr demo_state1
   \<and> pred_box demo_state1 = Some [[Fin (sigmoid 7), Fin (sigmoid 0), Fin (sigmoid 0), Fin (sigmoid 0)]]
   \<and> reference_point demo_state1 = [[Fin (sigmoid 7), Fin (sigmoid 0)]]
   \<and> sampling_query demo_state1 = [[Fin 7]]"
proof -
  have "stage demo_model demo_text_mask demo_fused 0 demo_state0 = Inr demo_state1"
    by (rule demo_stage0)
  from stage_state_update[OF this] this show ?thesis by (simp add: demo_state1_def)
qed

text \<open>
  C10. When \<open>forward\<close> reaches the loop with a stage count of 0 it returns \<open>None\<close>;
  when it returns with a stage count of k + 1, the value is the box that the stage of
  index k, the last one, computed from the state the first k stages left, so the boxes
  of the earlier stages are not part of the result.
\<close>

theorem forward_returns_final_stage_box:
  "(encode m img_data text_data = Inr (text_mask, f) \<and> stages m = 0 \<longrightarrow>
      forward m img_data text_data = Inr None) \<and>
   (forward m img_data text_data = Inr r \<and> stages m = Suc k \<longrightarrow>
      (\<exists>text_mask f s_prev s' pooled.
         encode m img_data text_data = Inr (text_mask, f) \<and>
         decode_loop m text_mask f 0 k (init_state m (length img_data) f) = Inr s_prev \<and>
         stage m text_mask f k s_prev = Inr s' \<and>
         r = pred_box s' \<and> r = Some (box_head m pooled)))"
proof (intro conjI impI)
  assume "encode m img_data text_data = Inr (text_mask, f) \<and> stages m = 0"
  then show "forward m img_data text_data = Inr None"
    by (simp add: forward_def init_state_def)
next
  assume a: "forward m img_data text_data = Inr r \<and> stages m = Suc k"
  then obtain tm g s' where e: "encode m img_data text_data = Inr (tm, g)"
    and d: "decode_loop m tm g 0 (Suc k) (init_state m (length img_data) g) = Inr s'"
    and r: "r = pred_box s'"
    by (auto simp: forward_def split: sum.splits prod.splits)
  from decode_loop_snoc[OF d] obtain sp where
    p: "decode_loop m tm g 0 k (init_state m (length img_data) g) = Inr sp"
    and st: "stage m tm g k sp = Inr s'" by auto
  from stage_Inr[OF st] obtain pooled where "pred_box s' = Some (box_head m pooled)" by force
  with e p st r show "\<exists>text_mask f s_prev s' pooled.
         encode m img_data text_data = Inr (text_mask, f) \<and>
         decode_loop m text_mask f 0 k (init_state m (length img_data) f) = Inr s_prev \<and>
         stage m text_mask f k s_prev = Inr s' \<and>
         r = pred_box s' \<and> r = Some (box_head m pooled)" by blast
qed

lemma demo_encode0: "encode (demo_model\<lparr>stages := 0\<rparr>) [0] () = Inr (demo_text_mask, demo_fused)"
  by (simp add: demo_simps)

theorem forward_returns_final_stage_box_witness:
  "forward (demo_model\<lparr>stages := 0\<rparr>) [0] () = Inr None
   \<and> forward demo_model [0] () = Inr (Some [[Fin (sigmoid 14), Fin (sigmoid 0), Fin (sigmoid 0), Fin (sigmoid 0)]])
   \<and> stage demo_model demo_text_mask demo_fused 0 demo_state0 = Inr demo_state1
   \<and> pred_box demo_state1 = Some [[Fin (sigmoid 7), Fin (sigmoid 0), Fin (sigmoid 0), Fin (sigmoid 0)]]"
proof -
  have s0: "stages (demo_model\<lparr>stages := 0\<rparr>) = 0" by simp
  have "forward (demo_model\<lparr>stages := 0\<rparr>) [0] () = Inr None"
    using forward_returns_final_stage_box
            [of "demo_model\<lparr>stages := 0\<rparr>" "[0]" "()" demo_text_mask demo_fused None 0]
          demo_encode0 s0 by blast
  moreover have "stages demo_model = Suc 1" by (simp add: demo_model_def)
  ultimately show ?thesis
    using demo_forward demo_stage0
          forward_returns_final_stage_box
            [of demo_model "[0]" "()" demo_text_mask demo_fused
                "Some [[Fin (sigmoid 14), Fin (sigmoid 0), Fin (sigmoid 0), Fin (sigmoid 0)]]" 1]
    by (simp add: demo_state1_def)
qed

text \<open>
  C9. A batch whose aggregated loss is not finite ends \<open>train_one_epoch\<close> with
  \<open>sys.exit(1)\<close>, whatever batches follow it; a batch with a finite loss is followed by
  the optimizer step and the log entry. The epoch ends with an error exactly when the
  loss of some batch, computed after the steps of all batches before it, is not finite,
  and the error is that exit; an epoch that returns has stepped on every batch and has
  logged only finite losses.
\<close>

theorem nonfinite_loss_aborts:
  "(\<not> isfinite (loss_value w batch) \<longrightarrow>
      train_one_epoch loss_value optimizer_step w (batch # rest) = Inl (SystemExit 1)) \<and>
   (isfinite (loss_value w batch) \<longrightarrow>
      train_one_epoch loss_value optimizer_step w [batch]
        = Inr (optimizer_step w batch, [loss_value w batch])) \<and>
   (train_one_epoch loss_value optimizer_step w data_loader = Inl e \<longleftrightarrow>
      e = SystemExit 1 \<and>
      (\<exists>k < length data_loader.
         \<not> isfinite (loss_value (foldl optimizer_step w (take k data_loader)) (data_loader ! k)))) \<and>
   (train_one_epoch loss_value optimizer_step w data_loader = Inr (w', logged) \<longrightarrow>
      w' = foldl optimizer_step w data_loader \<and>
      logged = map (\<lambda>k. loss_value (foldl optimizer_step w (take k data_loader)) (data_loader ! k))
                   [0..<length data_loader] \<and>
      (\<forall>k < length data_loader.
         isfinite (loss_value (foldl optimizer_step w (take k data_loader)) (data_loader ! k))))"
proof (intro conjI impI)
  assume "\<not> isfinite (loss_value w batch)"
  then show "train_one_epoch loss_value optimizer_step w (batch # rest) = Inl (SystemExit 1)"
    by (simp add: train_one_epoch_def)
next
  assume "isfinite (loss_value w batch)"
  then show "train_one_epoch loss_value optimizer_step w [batch]
        = Inr (optimizer_step w batch, [loss_value w batch])"
    by (simp add: train_one_epoch_def)
next
  show "train_one_epoch loss_value optimizer_step w data_loader = Inl e \<longleftrightarrow>
      e = SystemExit 1 \<and>
      (\<exists>k < length data_loader.
         \<not> isfinite (loss_value (foldl optimizer_step w (take k data_loader)) (data_loader ! k)))"
    unfolding train_one_epoch_def by (rule train_loop_Inl)
next
  assume a: "train_one_epoch loss_value optimizer_step w data_loader = Inr (w', logged)"
  note r = train_loop_Inr[OF a[unfolded train_one_epoch_def]]
  from r show "w' = foldl optimizer_step w data_loader" by blast
  from r show "logged = map (\<lambda>k. loss_value (foldl optimizer_step w (take k data_loader)) (data_loader ! k))
                   [0..<length data_loader]" by simp
  from r show "\<forall>k < length data_loader.
         isfinite (loss_value (foldl optimizer_step w (take k data_loader)) (data_loader ! k))" by blast
qed

theorem nonfinite_loss_aborts_witness:
  "train_one_epoch (\<lambda>w b. b) (\<lambda>w b. Suc w) 0 [Fin 1, NaN, Fin 2] = Inl (SystemExit 1)
   \<and> train_one_epoch (\<lambda>w b. b) (\<lambda>w b. Suc w) 0 [Fin 1] = Inr (Suc 0, [Fin 1])
   \<and> \<not> isfinite NaN \<and> isfinite (Fin 1)"
proof -
  have n: "\<not> isfinite NaN" and f: "isfinite (Fin 1)" by (simp_all add: isfinite_def)
  have "\<exists>k < length [Fin 1, NaN, Fin 2].
          \<not> isfinite ((\<lambda>w b. b) (foldl (\<lambda>w b. Suc w) (0::nat) (take k [Fin 1, NaN, Fin 2]))
                        ([Fin 1, NaN, Fin 2] ! k))"
    by (rule exI[where x = 1]) (simp add: isfinite_def)
  then have "train_one_epoch (\<lambda>w b. b) (\<lambda>w b. Suc w) (0::nat) [Fin 1, NaN, Fin 2] = Inl (SystemExit 1)"
    using nonfinite_loss_aborts[of "\<lambda>w b. b" 0 "Fin 1" "\<lambda>w b. Suc w" "[]" "[Fin 1, NaN, Fin 2]" "SystemExit 1"]
    by blast
  moreover have "train_one_epoch (\<lambda>w b. b) (\<lambda>w b. Suc w) (0::nat) [Fin 1] = Inr (Suc 0, [Fin 1])"
    using nonfinite_loss_aborts[of "\<lambda>w b. b" 0 "Fin 1" "\<lambda>w b. Suc w" "[]" "[]" "SystemExit 1"] f
    by simp
  ultimately show ?thesis using n f by simp
qed

section \<open>The fusion split\<close>

lemma fuse_no_encoder_split:
  "vl_encoder m = None \<Longrightarrow>
   fuse m prompts bs visu_mask visu_src text_mask text_src = Inr f \<Longrightarrow>
   visu_feat f = take (num_visu_token m) (unsqueeze1_repeat prompts bs @ visu_src @ text_src) \<and>
   language_feat f = drop (length prompts + num_visu_token m) (unsqueeze1_repeat prompts bs @ visu_src @ text_src)"
  by (auto simp: fuse_def vl_split_def vl_concat_def Let_def split: sum.splits)

text \<open>
  C1. The split at a concrete input: one prompt token (7), two visual tokens (10, 20),
  two text tokens (0, 40), no encoder. The concatenation is [7, 10, 20, 0, 40]; the
  visual stream returned is its first two tokens [7, 10], the prompt and one visual
  token, not the visual tokens [10, 20]; the text stream is [0, 40]; the positions are
  cut at the visual length, without the prompt offset.
\<close>

theorem fuse_split_keeps_prompt_token:
  "fuse demo_model [[7]] 1 [[False, False]] [[[10]], [[20]]] [[False, True]] [[[0]], [[40]]]
     = Inr \<lparr> visu_feat = [[[7]], [[10]]], language_feat = [[[0]], [[40]]],
             v_pos = [[[1]], [[2]]], l_pos = [[[3]], [[4]]] \<rparr>"
  by (simp add: demo_simps)

section \<open>Calling the model\<close>

text \<open>
  C2. The call of the training loop, \<open>model(img_data, text_data, tem_imgs, tem_txts,
  category, tem_cat)\<close>, hands six positional arguments to a \<open>forward\<close> that declares
  two: it raises TypeError and yields no box.
\<close>

theorem call_with_templates_TypeError:
  "call_model demo_model [0] () [''tem_imgs'', ''tem_txts'', ''category'', ''tem_cat'']
     = Inl TypeError"
  by (simp add: call_model_def)

section \<open>The prompt bank\<close>

lemma concat_single_group:
  "distinct ls \<Longrightarrow> a \<in> set ls \<Longrightarrow> concat (map (\<lambda>l. if l = a then F else []) ls) = F"
  by (induction ls) (auto simp: concat_eq_Nil_conv intro!: )

lemma mset_groups:
  "distinct ls \<Longrightarrow>
   mset (concat (map (\<lambda>l. filter (\<lambda>x. f x = l) xs) ls)) = filter_mset (\<lambda>x. f x \<in> set ls) (mset xs)"
proof (induction ls)
  case Nil
  then show ?case by simp
next
  case (Cons l ls)
  then have "l \<notin> set ls" by simp
  then have "filter_mset (\<lambda>x. f x = l) (mset xs) + filter_mset (\<lambda>x. f x \<in> set ls) (mset xs)
        = filter_mset (\<lambda>x. f x \<in> set (l # ls)) (mset xs)"
    by (intro multiset_eqI) auto
  with Cons show ?case by simp
qed

lemma set_groups:
  "set (concat (map (\<lambda>l. filter (\<lambda>x. f x = l) xs) ls)) = {x \<in> set xs. f x \<in> set ls}"
  by auto

lemma sorted_groups:
  fixes f :: "'a \<Rightarrow> 'k::linorder"
  shows "sorted ls \<Longrightarrow> sorted (map f (concat (map (\<lambda>l. filter (\<lambda>x. f x = l) xs) ls)))"
proof (induction ls)
  case Nil
  then show ?case by simp
next
  case (Cons l ls)
  have a: "sorted (map f (filter (\<lambda>x. f x = l) xs))"
    by (induction xs) (auto)
  have b: "\<forall>x \<in> set (filter (\<lambda>x. f x = l) xs).
             \<forall>y \<in> set (concat (map (\<lambda>l. filter (\<lambda>x. f x = l) xs) ls)). f x \<le> f y"
    using Cons.prems by auto
  show ?case using Cons a b by (auto simp: sorted_append)
qed

lemma groups_are_stable_sort:
  fixes f :: "'a \<Rightarrow> 'k::linorder"
  assumes "sorted ls" "distinct ls" "f ` set xs \<subseteq> set ls"
  shows "concat (map (\<lambda>l. filter (\<lambda>x. f x = l) xs) ls) = sort_key f xs"
proof (rule properties_for_sort_key[symmetric])
  let ?ys = "concat (map (\<lambda>l. filter (\<lambda>x. f x = l) xs) ls)"
  have "filter_mset (\<lambda>x. f x \<in> set ls) (mset xs) = mset xs"
    using assms(3) by (auto simp: filter_mset_eq_conv)
  then show "mset ?ys = mset xs" using mset_groups[OF assms(2), of f xs] by simp
  show "sorted (map f ?ys)" by (rule sorted_groups[OF assms(1)])
  fix k assume "k \<in> set ?ys"
  then have k: "f k \<in> set ls" by auto
  have "filter (\<lambda>x. f k = f x) ?ys = concat (map (\<lambda>l. if l = f k then filter (\<lambda>x. f k = f x) xs else []) ls)"
    unfolding filter_concat map_map comp_def
    by (rule arg_cong[where f = concat], rule map_cong[OF refl]) (auto intro: filter_cong)
  also have "\<dots> = filter (\<lambda>x. f k = f x) xs"
    by (rule concat_single_group[OF assms(2) k])
  finally show "filter (\<lambda>x. f k = f x) ?ys = filter (\<lambda>x. f k = f x) xs" .
qed

lemma label_order:
  "concat (map (label_indices template_labels) (unique template_labels))
     = sort_key (\<lambda>i. template_labels ! i) [0..<length template_labels]"
proof -
  have "concat (map (\<lambda>l. filter (\<lambda>i. template_labels ! i = l) [0..<length template_labels])
                    (sort (remdups template_labels)))
        = sort_key (\<lambda>i. template_labels ! i) [0..<length template_labels]"
    by (rule groups_are_stable_sort) auto
  moreover have "label_indices template_labels
        = (\<lambda>l. filter (\<lambda>i. template_labels ! i = l) [0..<length template_labels])"
    by (rule ext) (simp add: label_indices_def)
  ultimately show ?thesis by (simp add: unique_def)
qed

lemma randint_table:
  "E \<noteq> [] \<Longrightarrow> randint 0 (int (length E) - 1) (f, n) = Inr (int (f n mod length E), (f, Suc n))"
  by (cases E) (auto simp: randint_def nat_add_distrib)

lemma add_rows_same: "length a = H \<Longrightarrow> length b = H \<Longrightarrow>
  add_rows a b = Inr (map (\<lambda>j. a ! j + b ! j) [0..<H])"
  by (simp add: add_rows_def)

lemma template_loop_ok:
  assumes E: "E \<noteq> []" "\<forall>row \<in> set E. length row = H"
      and ts: "\<forall>x \<in> set ts. \<exists>feat. avg_pool_view (template_visumodel m x) hd_arg = Inr feat \<and> length feat = H"
  shows "template_loop m E hd_arg ts (f, n) acc =
           Inr (acc @ map (\<lambda>(x, k). map (\<lambda>j. projr (avg_pool_view (template_visumodel m x) hd_arg) ! j
                                               + E ! (f k mod length E) ! j) [0..<H])
                          (zip ts [n..<n + length ts]),
                (f, n + length ts))"
  using ts
proof (induction ts arbitrary: n acc)
  case Nil
  then show ?case by simp
next
  case (Cons x ts)
  from Cons.prems obtain feat where feat: "avg_pool_view (template_visumodel m x) hd_arg = Inr feat"
    and lf: "length feat = H" by auto
  have idx: "f n mod length E < length E" using E(1) by simp
  then have lrow: "length (E ! (f n mod length E)) = H" using E(2) by simp
  have ih: "template_loop m E hd_arg ts (f, Suc n) (acc @ [map (\<lambda>j. feat ! j + E ! (f n mod length E) ! j) [0..<H]]) =
           Inr ((acc @ [map (\<lambda>j. feat ! j + E ! (f n mod length E) ! j) [0..<H]]) @
                map (\<lambda>(x, k). map (\<lambda>j. projr (avg_pool_view (template_visumodel m x) hd_arg) ! j
                                               + E ! (f k mod length E) ! j) [0..<H])
                          (zip ts [Suc n..<Suc n + length ts]),
                (f, Suc n + length ts))"
    by (rule Cons.IH) (use Cons.prems in auto)
  have up: "[n..<n + length (x # ts)] = n # [Suc n..<Suc n + length ts]"
    by (simp add: upt_conv_Cons del: upt_Suc)
  show ?case
    unfolding up
    by (simp add: feat randint_table[OF E(1)] add_rows_same[OF lf lrow] ih del: upt_Suc)
qed

lemma index_select_ok:
  "\<forall>i \<in> set idx. i < length xs \<Longrightarrow> index_select xs idx = Inr (map (\<lambda>i. xs ! i) idx)"
  by (simp add: index_select_def)

lemma zip_upt_append:
  "zip (xs @ ys) [n..<n + (length xs + length ys)] =
   zip xs [n..<n + length xs] @ zip ys [n + length xs..<n + length xs + length ys]"
proof -
  have "[n..<n + (length xs + length ys)] = [n..<n + length xs] @ [n + length xs..<n + length xs + length ys]"
    by (metis add.assoc upt_add_eq_append le_add1)
  then show ?thesis by (simp only: zip_append length_upt add_diff_cancel_left')
qed

lemma label_loop_ok:
  assumes E: "E \<noteq> []" "\<forall>row \<in> set E. length row = H"
      and ts: "\<forall>x \<in> set templates. \<exists>feat. avg_pool_view (template_visumodel m x) hd_arg = Inr feat \<and> length feat = H"
      and len: "length template_labels = length templates"
  shows "label_loop m E hd_arg templates template_labels ls (f, n) acc =
           Inr (acc @ map (\<lambda>(x, k). map (\<lambda>j. projr (avg_pool_view (template_visumodel m x) hd_arg) ! j
                                               + E ! (f k mod length E) ! j) [0..<H])
                          (zip (map (\<lambda>i. templates ! i) (concat (map (label_indices template_labels) ls)))
                               [n..<n + length (concat (map (label_indices template_labels) ls))]),
                (f, n + length (concat (map (label_indices template_labels) ls))))"
proof (induction ls arbitrary: n acc)
  case Nil
  then show ?case by simp
next
  case (Cons l ls)
  let ?I = "label_indices template_labels l"
  let ?R = "concat (map (label_indices template_labels) ls)"
  let ?T = "\<lambda>is. map (\<lambda>i. templates ! i) is"
  let ?c = "\<lambda>(x, k). map (\<lambda>j. projr (avg_pool_view (template_visumodel m x) hd_arg) ! j
                                               + E ! (f k mod length E) ! j) [0..<H]"
  have inb: "\<forall>i \<in> set ?I. i < length templates" using len by (auto simp: label_indices_def)
  have sel: "index_select templates ?I = Inr (?T ?I)"
    by (rule index_select_ok[OF inb])
  have ok1: "\<forall>x \<in> set (?T ?I). \<exists>feat. avg_pool_view (template_visumodel m x) hd_arg = Inr feat \<and> length feat = H"
    using ts inb by auto
  have tl: "template_loop m E hd_arg (?T ?I) (f, n) acc =
      Inr (acc @ map ?c (zip (?T ?I) [n..<n + length ?I]), (f, n + length ?I))"
    using template_loop_ok[OF E ok1, of f n acc] by simp
  have cc: "concat (map (label_indices template_labels) (l # ls)) = ?I @ ?R" by simp
  have z: "zip (?T (?I @ ?R)) [n..<n + length (?I @ ?R)] =
           zip (?T ?I) [n..<n + length ?I] @ zip (?T ?R) [n + length ?I..<n + length ?I + length ?R]"
    using zip_upt_append[of "?T ?I" "?T ?R" n] by (simp only: map_append length_map length_append)
  have "label_loop m E hd_arg templates template_labels (l # ls) (f, n) acc =
        label_loop m E hd_arg templates template_labels ls (f, n + length ?I)
          (acc @ map ?c (zip (?T ?I) [n..<n + length ?I]))"
    by (simp only: label_loop.simps sel tl sum.case prod.case)
  also have "\<dots> = Inr ((acc @ map ?c (zip (?T ?I) [n..<n + length ?I])) @
                        map ?c (zip (?T ?R) [n + length ?I..<n + length ?I + length ?R]),
                       (f, n + length ?I + length ?R))"
    by (rule Cons.IH)
  also have "\<dots> = Inr (acc @ map ?c (zip (?T (?I @ ?R)) [n..<n + length (?I @ ?R)]),
                       (f, n + length (?I @ ?R)))"
    unfolding z by (simp only: map_append append_assoc length_append add.assoc)
  finally show ?case unfolding cc .
qed

lemma avg_pool_view_ok:
  "length x = hd_arg \<Longrightarrow> \<forall>ch \<in> set x. concat ch \<noteq> [] \<Longrightarrow>
   avg_pool_view x hd_arg = Inr (map (\<lambda>ch. sum_list (concat ch) / real (length (concat ch))) x)"
  by (simp add: avg_pool_view_def)

text \<open>
  C4. For a non-empty list of templates with one label each, at least one pseudo class,
  and feature maps of \<open>hidden_dim\<close> non-empty channels, the prompt constructor
  returns; the bank it stores has one entry per template; entry k is the channel means
  of the feature map of the template at position k of the stable sort of the template
  indices by label (ascending label groups, the templates of a group in their given
  order), plus one row of the single embedding table it has just drawn.
\<close>

theorem visual_prompt_bank:
  assumes len: "length template_labels = length templates"
      and ne: "templates \<noteq> []"
      and cls: "0 < pseudo_num_classes m"
      and pool: "\<forall>x \<in> set templates. length (template_visumodel m x) = hidden_dim m \<and>
                   (\<forall>ch \<in> set (template_visumodel m x). concat ch \<noteq> [])"
      and hd: "hd_arg = hidden_dim m"
  shows "\<exists>m' g' t' bank table.
     get_visual_prompts m templates template_labels hd_arg g t = Inr (m', g', t') \<and>
     visual_prompts m' = Some bank \<and> pseudo_embedding m' = Some table \<and>
     length table = nat (pseudo_num_classes m) \<and>
     length bank = length templates \<and>
     (\<forall>k < length templates.
        \<exists>idx < length table.
          bank ! k =
            map (\<lambda>j. map (\<lambda>ch. sum_list (concat ch) / real (length (concat ch)))
                        (template_visumodel m
                           (templates ! (sort_key (\<lambda>i. template_labels ! i) [0..<length templates] ! k))) ! j
                      + table ! idx ! j)
                [0..<hidden_dim m])"
proof -
  let ?H = "hidden_dim m"
  let ?order = "sort_key (\<lambda>i. template_labels ! i) [0..<length templates]"
  obtain f n where g: "g = (f, n)" by (cases g)
  obtain E t' where pe: "PseudoEmbedding (pseudo_num_classes m) ?H t = Inr (E, t')"
    and lE: "length E = nat (pseudo_num_classes m)" and rE: "\<forall>row \<in> set E. length row = ?H"
    using cls by (auto simp: PseudoEmbedding_def)
  have Ene: "E \<noteq> []" using lE cls by auto
  have feat: "avg_pool_view (template_visumodel m x) hd_arg =
                Inr (map (\<lambda>ch. sum_list (concat ch) / real (length (concat ch))) (template_visumodel m x))"
    if "x \<in> set templates" for x
    using avg_pool_view_ok[of "template_visumodel m x" hd_arg] pool hd that by simp
  have ts: "\<forall>x \<in> set templates. \<exists>feat. avg_pool_view (template_visumodel m x) hd_arg = Inr feat \<and> length feat = ?H"
    using feat pool by simp
  have ord: "concat (map (label_indices template_labels) (unique template_labels)) = ?order"
    using label_order[of template_labels] len by simp
  have lord: "length ?order = length templates" by simp
  let ?c = "\<lambda>(x, k). map (\<lambda>j. projr (avg_pool_view (template_visumodel m x) hd_arg) ! j
                                               + E ! (f k mod length E) ! j) [0..<?H]"
  let ?bank = "map ?c (zip (map (\<lambda>i. templates ! i) ?order) [n..<n + length ?order])"
  have ll: "label_loop m E hd_arg templates template_labels (unique template_labels) (f, n) [] =
              Inr (?bank, (f, n + length ?order))"
    using label_loop_ok[OF Ene rE ts len, of "unique template_labels" f n "[]"]
    unfolding ord by simp
  have lb: "length ?bank = length templates" by simp
  have bne: "?bank \<noteq> []" using lb ne by (metis length_0_conv)
  let ?m' = "m\<lparr> pseudo_embedding := Some E, visual_prompts := Some ?bank,
                 named_parameters := register_parameter ''pseudo_embedding.embeddings'' (named_parameters m) \<rparr>"
  have res: "get_visual_prompts m templates template_labels hd_arg g t = Inr (?m', (f, n + length ?order), t')"
    unfolding get_visual_prompts_def pe g using ll bne by (simp del: length_sort)
  have ent: "\<exists>idx < length E. ?bank ! k =
            map (\<lambda>j. map (\<lambda>ch. sum_list (concat ch) / real (length (concat ch)))
                        (template_visumodel m (templates ! (?order ! k))) ! j + E ! idx ! j) [0..<?H]"
    if k: "k < length templates" for k
  proof -
    have "?order ! k \<in> set ?order" using k by (simp del: set_sort)
    then have ok: "?order ! k < length templates" by simp
    then have mem: "templates ! (?order ! k) \<in> set templates" by simp
    have "?bank ! k = ?c (templates ! (?order ! k), n + k)"
      using k by (simp del: length_sort add: lord)
    also have "\<dots> = map (\<lambda>j. map (\<lambda>ch. sum_list (concat ch) / real (length (concat ch)))
                        (template_visumodel m (templates ! (?order ! k))) ! j
                        + E ! (f (n + k) mod length E) ! j) [0..<?H]"
      by (simp add: feat[OF mem])
    finally have b: "?bank ! k = map (\<lambda>j. map (\<lambda>ch. sum_list (concat ch) / real (length (concat ch)))
                        (template_visumodel m (templates ! (?order ! k))) ! j
                        + E ! (f (n + k) mod length E) ! j) [0..<?H]" .
    have "f (n + k) mod length E < length E" using Ene by simp
    with b show ?thesis by blast
  qed
  show ?thesis
  proof (intro exI conjI)
    show "get_visual_prompts m templates template_labels hd_arg g t = Inr (?m', (f, n + length ?order), t')"
      by (rule res)
    show "visual_prompts ?m' = Some ?bank" by simp
    show "pseudo_embedding ?m' = Some E" by simp
    show "length E = nat (pseudo_num_classes m)" by (rule lE)
    show "length ?bank = length templates" by (rule lb)
    show "\<forall>k < length templates. \<exists>idx < length E. ?bank ! k =
            map (\<lambda>j. map (\<lambda>ch. sum_list (concat ch) / real (length (concat ch)))
                        (template_visumodel m (templates ! (?order ! k))) ! j + E ! idx ! j) [0..<?H]"
      using ent by blast
  qed
qed

lemmas prompt_simps = get_visual_prompts_def PseudoEmbedding_def unique_def label_indices_def
  index_select_def avg_pool_view_def randint_def add_rows_def register_parameter_def
  demo_model_def upt_conv_Cons

lemma demo_prompts:
  "get_visual_prompts (demo_model\<lparr>pseudo_num_classes := 2\<rparr>) [4, 6] [5, 3] 1
       (Suc, 0) (\<lambda>n. real n * 10, 0)
   = Inr (demo_model\<lparr> pseudo_num_classes := 2,
                      pseudo_embedding := Some [[0], [10]],
                      visual_prompts := Some [[16], [4]],
                      named_parameters := named_parameters demo_model @
                        [\<lparr> name = ''pseudo_embedding.embeddings'', requires_grad = True \<rparr>] \<rparr>,
          (Suc, 2), (\<lambda>n. real n * 10, 2))"
  by (simp add: prompt_simps)

theorem visual_prompt_bank_witness:
  "get_visual_prompts (demo_model\<lparr>pseudo_num_classes := 2\<rparr>) [4, 6] [5, 3] 1
       (Suc, 0) (\<lambda>n. real n * 10, 0)
   = Inr (demo_model\<lparr> pseudo_num_classes := 2,
                      pseudo_embedding := Some [[0], [10]],
                      visual_prompts := Some [[16], [4]],
                      named_parameters := named_parameters demo_model @
                        [\<lparr> name = ''pseudo_embedding.embeddings'', requires_grad = True \<rparr>] \<rparr>,
          (Suc, 2), (\<lambda>n. real n * 10, 2))
   \<and> sort_key (\<lambda>i. [5, 3 :: int] ! i) [0..<length [4, 6 :: nat]] = [1, 0]"
proof -
  let ?m = "demo_model\<lparr>pseudo_num_classes := 2\<rparr>"
  have h1: "length [5, 3 :: int] = length [4, 6 :: nat]" by simp
  have h2: "[4, 6 :: nat] \<noteq> []" by simp
  have h3: "0 < pseudo_num_classes ?m" by simp
  have h4: "\<forall>x \<in> set [4, 6 :: nat]. length (template_visumodel ?m x) = hidden_dim ?m \<and>
                   (\<forall>ch \<in> set (template_visumodel ?m x). concat ch \<noteq> [])"
    by (simp add: demo_model_def)
  have h5: "1 = hidden_dim ?m" by (simp add: demo_model_def)
  from visual_prompt_bank[OF h1 h2 h3 h4 h5, of "(Suc, 0)" "(\<lambda>n. real n * 10, 0)"]
  obtain m' g' t' bank where
    "get_visual_prompts ?m [4, 6] [5, 3] 1 (Suc, 0) (\<lambda>n. real n * 10, 0) = Inr (m', g', t')"
    "visual_prompts m' = Some bank" "length bank = length [4, 6 :: nat]"
    by blast
  moreover have "sort_key (\<lambda>i. [5, 3 :: int] ! i) [0..<length [4, 6 :: nat]] = [1, 0]"
    by (simp add: upt_conv_Cons)
  ultimately show ?thesis using demo_prompts by simp
qed

section \<open>The range of the box\<close>

lemma sigmoid_range: "0 \<le> sigmoid x \<and> sigmoid x \<le> 1"
proof -
  have "0 < exp (- x)" by simp
  then show ?thesis unfolding sigmoid_def by (auto simp: field_simps add_pos_pos)
qed

lemma fsigmoid_in_unit: "x \<noteq> NaN \<Longrightarrow> in_unit (fsigmoid x)"
  using sigmoid_range by (cases x) (simp_all add: in_unit_def)

lemma fsigmoid_NaN: "fsigmoid x = NaN \<longleftrightarrow> x = NaN"
  by (cases x) simp_all

lemma box_head_in_unit:
  assumes "\<forall>row \<in> set (bbox_embed m v). NaN \<notin> set row"
  shows "\<forall>row \<in> set (box_head m v). \<forall>x \<in> set row. in_unit x"
  using assms unfolding box_head_def by (auto intro!: fsigmoid_in_unit)

text \<open>
  C6, as stated, fails: for a text row of padding only the masked pooling divides zero
  by zero, the box head receives NaN, and \<open>forward\<close> returns a box whose first
  coordinate is NaN, which is not in [0, 1].
\<close>

theorem all_padding_box_is_NaN_counterexample:
  "forward demo_model_all_padding [0] ()
     = Inr (Some [[NaN, Fin (sigmoid 0), Fin (sigmoid 0), Fin (sigmoid 0)]])
   \<and> \<not> in_unit NaN"
  by (simp add: demo_simps in_unit_def)

lemma box_head_coord:
  assumes "j < length (bbox_embed m v)" "c < length (bbox_embed m v ! j)"
  shows "box_head m v ! j ! c = fsigmoid (bbox_embed m v ! j ! c)"
  using assms by (simp add: box_head_def)

text \<open>
  C6, amended. Every coordinate of the box whose pre-activation value is not NaN, finite
  or infinite, lies in [0, 1], and a NaN pre-activation gives a NaN coordinate. So after
  a stage that returns, and after every stage of the loop, each box coordinate with a
  pre-activation other than NaN is in [0, 1], and so is the coordinate of the reference
  point taken from it (the first two of each row).
\<close>

theorem box_in_unit_range_unless_NaN:
  "(\<forall>j < length (bbox_embed m v). \<forall>c < length (bbox_embed m v ! j).
      (bbox_embed m v ! j ! c \<noteq> NaN \<longrightarrow> in_unit (box_head m v ! j ! c)) \<and>
      (bbox_embed m v ! j ! c = NaN \<longrightarrow> box_head m v ! j ! c = NaN)) \<and>
   (stage m text_mask f i s = Inr s' \<or> decode_loop m text_mask f i (Suc n) s = Inr s' \<longrightarrow>
      (\<exists>vg0 pooled.
         masked_pooling text_mask vg0 = Inr pooled \<and>
         pred_box s' = Some (box_head m pooled) \<and>
         length (reference_point s') = length (bbox_embed m pooled) \<and>
         (\<forall>j < length (bbox_embed m pooled). \<forall>c < length (bbox_embed m pooled ! j).
            bbox_embed m pooled ! j ! c \<noteq> NaN \<longrightarrow>
              in_unit (box_head m pooled ! j ! c) \<and>
              (c < 2 \<longrightarrow> in_unit (reference_point s' ! j ! c)))))"
proof (intro conjI impI allI)
  fix j c assume j: "j < length (bbox_embed m v)" and c: "c < length (bbox_embed m v ! j)"
  show "bbox_embed m v ! j ! c \<noteq> NaN \<Longrightarrow> in_unit (box_head m v ! j ! c)"
    unfolding box_head_coord[OF j c] by (rule fsigmoid_in_unit)
  show "bbox_embed m v ! j ! c = NaN \<Longrightarrow> box_head m v ! j ! c = NaN"
    unfolding box_head_coord[OF j c] by simp
next
  assume a: "stage m text_mask f i s = Inr s' \<or> decode_loop m text_mask f i (Suc n) s = Inr s'"
  have "\<exists>j s0. stage m text_mask f j s0 = Inr s'"
    using a decode_loop_snoc[of m text_mask f i n s s'] by blast
  then obtain j0 s0 where st: "stage m text_mask f j0 s0 = Inr s'" by blast
  from stage_Inr[OF st] obtain vg0 pooled where
    mp: "masked_pooling text_mask vg0 = Inr pooled" and
    pb: "pred_box s' = Some (box_head m pooled)" and
    rp: "reference_point s' = map (take 2) (box_head m pooled)" by force
  have len: "length (reference_point s') = length (bbox_embed m pooled)"
    unfolding rp by (simp add: box_head_def)
  have co: "in_unit (box_head m pooled ! j ! c) \<and> (c < 2 \<longrightarrow> in_unit (reference_point s' ! j ! c))"
    if j: "j < length (bbox_embed m pooled)" and c: "c < length (bbox_embed m pooled ! j)"
      and nn: "bbox_embed m pooled ! j ! c \<noteq> NaN" for j c
  proof -
    have b: "in_unit (box_head m pooled ! j ! c)"
      unfolding box_head_coord[OF j c] by (rule fsigmoid_in_unit[OF nn])
    have "reference_point s' ! j ! c = box_head m pooled ! j ! c" if "c < 2"
      unfolding rp using j that by (simp add: box_head_def)
    with b show ?thesis by simp
  qed
  show "\<exists>vg0 pooled.
         masked_pooling text_mask vg0 = Inr pooled \<and>
         pred_box s' = Some (box_head m pooled) \<and>
         length (reference_point s') = length (bbox_embed m pooled) \<and>
         (\<forall>j < length (bbox_embed m pooled). \<forall>c < length (bbox_embed m pooled ! j).
            bbox_embed m pooled ! j ! c \<noteq> NaN \<longrightarrow>
              in_unit (box_head m pooled ! j ! c) \<and>
              (c < 2 \<longrightarrow> in_unit (reference_point s' ! j ! c)))"
    using mp pb len co by blast
qed

theorem box_in_unit_range_unless_NaN_witness:
  "stage demo_model demo_text_mask demo_fused 0 demo_state0 = Inr demo_state1
   \<and> pred_box demo_state1 = Some [[Fin (sigmoid 7), Fin (sigmoid 0), Fin (sigmoid 0), Fin (sigmoid 0)]]
   \<and> in_unit (fsigmoid (Fin 7)) \<and> in_unit (fsigmoid PosInf) \<and> fsigmoid NaN = NaN"
proof -
  have "in_unit (box_head demo_model [[Fin 7]] ! 0 ! 0)"
    using box_in_unit_range_unless_NaN[of demo_model "[[Fin 7]]", THEN conjunct1, rule_format, of 0 0]
    by (simp add: demo_model_def)
  then have "in_unit (fsigmoid (Fin 7))" by (simp add: box_head_def demo_model_def)
  moreover have "in_unit (fsigmoid PosInf)" by (simp add: in_unit_def)
  ultimately show ?thesis using demo_stage0 by (simp add: demo_state1_def)
qed

section \<open>The adaptation policy\<close>

text \<open>
  C3. The constructor with \<open>args.pseudo_embedding\<close> applies the policy to the object
  the parent class has built. The parameters left trainable are the initial-query
  constant and the query-update projection; the object holds no pseudo-embedding table
  and no parameter named after one, since the table is created only by
  \<open>_get_visual_prompts\<close>.
\<close>

theorem init_policy_finds_no_embedding_table:
  "(case init demo_args demo_model of
      Inl e \<Rightarrow> None
    | Inr m \<Rightarrow> Some (trainable_names m, pseudo_embedding m,
                      filter (in_str ''pseudo_embedding'') (map name (named_parameters m))))
   = Some ([''init_sampling_feature.weight'', ''update_sampling_queries.0.weight''], None, [])"
  by (simp add: init_def demo_args_def demo_model_def freeze_model_parameters_def
        freeze_cond_def trainable_names_def)

section \<open>Two runs of prompt construction and forward\<close>

lemma sigmoid_inj: "sigmoid x = sigmoid y \<Longrightarrow> x = y"
proof -
  assume "sigmoid x = sigmoid y"
  then have "1 + exp (- x) = 1 + exp (- y)"
    unfolding sigmoid_def
    by (metis add_pos_pos exp_gt_zero inverse_eq_divide inverse_inverse_eq zero_less_one)
  then show "x = y" by simp
qed

text \<open>
  C8. Two runs from the same weights (a stored table [[0]] among them), the same state
  of Python's generator and the same inputs, the tensor library's generator being one
  draw further in the second run: each run replaces the stored table by a fresh draw
  ([[1]] in the first), and the two boxes differ in their first coordinate.
\<close>

theorem two_runs_redraw_table:
  "construct_then_forward (demo_model\<lparr>pseudo_embedding := Some [[0]]\<rparr>) [0] [5] 1 [0] ()
       (Suc, 0) (real, 1)
     = Inr (Some [[Fin (sigmoid 2), Fin (sigmoid 0), Fin (sigmoid 0), Fin (sigmoid 0)]])
   \<and> construct_then_forward (demo_model\<lparr>pseudo_embedding := Some [[0]]\<rparr>) [0] [5] 1 [0] ()
       (Suc, 0) (real, 2)
     = Inr (Some [[Fin (sigmoid 4), Fin (sigmoid 0), Fin (sigmoid 0), Fin (sigmoid 0)]])
   \<and> sigmoid 2 \<noteq> sigmoid 4
   \<and> (case get_visual_prompts (demo_model\<lparr>pseudo_embedding := Some [[0]]\<rparr>) [0] [5] 1
              (Suc, 0) (real, 1) of
         Inl e \<Rightarrow> None | Inr (m', g', t') \<Rightarrow> pseudo_embedding m') = Some [[1]]"
proof -
  have "sigmoid 2 \<noteq> sigmoid 4" using sigmoid_inj[of 2 4] by auto
  then show ?thesis
    by (simp add: construct_then_forward_def prompt_simps demo_simps)
qed

end
